theory Spec2Isabelle
  imports Complex_Main
begin

section \<open>The network connection monitor of the launcher\<close>

text \<open>
  A shallow embedding of the class \<open>NetworkConnectionMonitor\<close> of
  \<open>professional_multitheme_launcher_v2.py\<close>. The methods become functions on an explicit
  state; what the methods ask of the outside (the sockets, the clock, the configuration
  file, the settings) is a parameter, and the outcome of every outside call that can fail
  is a value.
\<close>

subsection \<open>Exceptions, the clock, the network\<close>

text \<open>
  An exception is its class name and the text \<open>str(e)\<close>. Only exceptions below
  \<open>Exception\<close> are modelled.
\<close>

datatype exn = Exn string string

fun str_exn :: "exn \<Rightarrow> string" where
  "str_exn (Exn cls msg) = msg"

definition unbound_local :: exn where
  "unbound_local = Exn ''UnboundLocalError'' ''local variable response_time referenced before assignment''"

text \<open>
  \<open>time.time()\<close> reads a clock of seconds, taken as an exact real number. Python's
  \<open>int(x)\<close> truncates towards zero.
\<close>

definition py_int :: "real \<Rightarrow> int" where
  "py_int x = (if x < 0 then \<lceil>x\<rceil> else \<lfloor>x\<rfloor>)"

definition elapsed_ms :: "real \<Rightarrow> real \<Rightarrow> int" where
  "elapsed_ms start_time t = py_int ((t - start_time) * 1000)"

text \<open>
  One pass through the body of the inner \<open>try\<close> of \<open>_check_connectivity\<close> creates a
  socket, sets its timeout, calls \<open>connect_ex\<close> and closes the socket. Either all four
  calls return, and the pass has the integer that \<open>connect_ex\<close> returned, or one of them
  raises. The network answers, for a host, a port and a timeout, with that outcome and with
  the seconds the pass took.
\<close>

datatype attempt = Returned int | Raised exn

type_synonym network = "string \<Rightarrow> nat \<Rightarrow> real \<Rightarrow> attempt \<times> real"

subsection \<open>Records and state\<close>

text \<open>
  The dictionary stored per node by \<open>_check_single_node\<close>, with its six keys as fields.
\<close>

record health_record =
  ip :: string
  type :: string
  status :: string
  response_time :: int
  last_check :: real
  recommendation :: string

text \<open>
  A node of the configuration is a JSON object with string values, read with
  \<open>node.get(key, default)\<close>.
\<close>

type_synonym node = "string \<rightharpoonup> string"

definition dict_get :: "('k \<rightharpoonup> 'v) \<Rightarrow> 'k \<Rightarrow> 'v \<Rightarrow> 'v" where
  "dict_get d k dflt = (case d k of None \<Rightarrow> dflt | Some v \<Rightarrow> v)"

text \<open>
  What a check cycle does to its worker threads and to its own thread, in the order of the
  calls: \<open>thread.start()\<close> for a node and a timeout, \<open>thread.join(timeout=...)\<close>,
  \<open>time.sleep(...)\<close>.
\<close>

datatype event = ThreadStart node real | ThreadJoin node real | Sleep real

text \<open>
  The state holds the three attributes of the monitor object, and of the world around it the
  clock, the connection attempts made so far (host, port, timeout), the lines given to
  \<open>log_message\<close> (message and category), the thread events of the cycles, and the
  worker threads that are still running: for each of them the time at which it ends and the
  name and record it then writes into \<open>health_data\<close>.
\<close>

record state =
  health_data :: "string \<rightharpoonup> health_record"
  running :: bool
  check_in_progress :: bool
  clock :: real
  attempts :: "(string \<times> nat \<times> real) list"
  log_lines :: "(string \<times> string) list"
  events :: "event list"
  in_flight :: "(real \<times> string \<times> health_record) list"

definition init :: "real \<Rightarrow> state" where
  "init t0 = \<lparr>health_data = Map.empty, running = True, check_in_progress = False,
     clock = t0, attempts = [], log_lines = [], events = [], in_flight = []\<rparr>"

definition log_message :: "string \<Rightarrow> string \<Rightarrow> state \<Rightarrow> state" where
  "log_message message category s = s\<lparr>log_lines := log_lines s @ [(message, category)]\<rparr>"

subsection \<open>\<open>_check_connectivity\<close>\<close>

definition test_ports :: "string \<Rightarrow> nat list" where
  "test_ports node_type =
     (if node_type = ''ssh'' then [22]
      else if node_type = ''telnet'' then [23]
      else [22, 23])"

text \<open>The body of the inner \<open>try\<close> for one port: the attempt is recorded and takes its time.\<close>

definition try_connect :: "network \<Rightarrow> string \<Rightarrow> nat \<Rightarrow> real \<Rightarrow> state \<Rightarrow> attempt \<times> state" where
  "try_connect net host port timeout s =
     (case net host port timeout of
        (res, d) \<Rightarrow> (res, s\<lparr>clock := clock s + d, attempts := attempts s @ [(host, port, timeout)]\<rparr>))"

text \<open>
  \<open>return False, response_time\<close> after the loop: the local variable is unbound when no
  pass of the loop reached its assignment, and reading it raises.
\<close>

fun return_false :: "int option \<Rightarrow> exn + bool \<times> int" where
  "return_false None = Inl unbound_local"
| "return_false (Some t) = Inr (False, t)"

text \<open>
  The \<open>for port in test_ports\<close> loop. \<open>rt\<close> is the local variable \<open>response_time\<close>,
  \<open>None\<close> while it is unbound. A pass that raises goes on with the next port (the bare
  \<open>except: continue\<close>) and skips the assignment at the end of the loop body.
\<close>

fun port_loop ::
  "network \<Rightarrow> string \<Rightarrow> real \<Rightarrow> real \<Rightarrow> nat list \<Rightarrow> int option \<Rightarrow> state \<Rightarrow> (exn + bool \<times> int) \<times> state"
where
  "port_loop net host timeout start_time [] rt s = (return_false rt, s)"
| "port_loop net host timeout start_time (port # ports) rt s =
     (case try_connect net host port timeout s of
        (Returned result, s') \<Rightarrow>
          if result = 0 then (Inr (True, max (elapsed_ms start_time (clock s')) 1), s')
          else port_loop net host timeout start_time ports (Some (elapsed_ms start_time (clock s'))) s'
      | (Raised e, s') \<Rightarrow> port_loop net host timeout start_time ports rt s')"

text \<open>
  The whole method: the outer \<open>except Exception\<close> turns an exception of the body into the
  result \<open>(False, elapsed)\<close>, with the clock read in the handler.
\<close>

definition check_connectivity ::
  "network \<Rightarrow> string \<Rightarrow> string \<Rightarrow> real \<Rightarrow> state \<Rightarrow> (exn + bool \<times> int) \<times> state"
where
  "check_connectivity net host node_type timeout s =
     (let start_time = clock s in
      case port_loop net host timeout start_time (test_ports node_type) None s of
        (Inl e, s') \<Rightarrow> (Inr (False, elapsed_ms start_time (clock s')), s')
      | (Inr r, s') \<Rightarrow> (Inr r, s'))"

subsection \<open>Notions used to state what the probe does\<close>

definition connects :: "network \<Rightarrow> string \<Rightarrow> real \<Rightarrow> nat \<Rightarrow> bool" where
  "connects net host timeout port = (fst (net host port timeout) = Returned 0)"

definition raises :: "network \<Rightarrow> string \<Rightarrow> real \<Rightarrow> nat \<Rightarrow> bool" where
  "raises net host timeout port =
     (case fst (net host port timeout) of Raised e \<Rightarrow> True | Returned r \<Rightarrow> False)"

text \<open>The state once the ports \<open>ps\<close> have been tried one after the other.\<close>

definition attempted :: "network \<Rightarrow> string \<Rightarrow> real \<Rightarrow> nat list \<Rightarrow> state \<Rightarrow> state" where
  "attempted net host timeout ps s = foldl (\<lambda>s' p. snd (try_connect net host p timeout s')) s ps"

text \<open>The ports up to and including the first one that connects.\<close>

definition tried_ports :: "network \<Rightarrow> string \<Rightarrow> real \<Rightarrow> nat list \<Rightarrow> nat list" where
  "tried_ports net host timeout ps =
     takeWhile (\<lambda>p. \<not> connects net host timeout p) ps
       @ take 1 (dropWhile (\<lambda>p. \<not> connects net host timeout p) ps)"

text \<open>
  The ports tried before the clock is read for the last time when no port connects: all of
  them when every pass raised (the clock is read in the handler), otherwise those up to and
  including the last pass in which \<open>connect_ex\<close> returned.
\<close>

definition read_after :: "network \<Rightarrow> string \<Rightarrow> real \<Rightarrow> nat list \<Rightarrow> nat list" where
  "read_after net host timeout ps =
     (if list_all (raises net host timeout) ps then ps
      else rev (dropWhile (raises net host timeout) (rev ps)))"


subsection \<open>\<open>_get_recommendation\<close> and \<open>_check_single_node\<close>\<close>

text \<open>
  A character of a string of the model is a code point below 256 (U+0000 to U+00FF).
  \<open>str.lower()\<close> maps each of them by itself: the letters A to Z, U+00C0 to U+00D6 and
  U+00D8 to U+00DE go to the code point 32 higher, every other one stays.
\<close>

definition lower_char :: "char \<Rightarrow> char" where
  "lower_char c =
     (let n = (of_char c :: nat)
      in if (65 \<le> n \<and> n \<le> 90) \<or> (192 \<le> n \<and> n \<le> 214) \<or> (216 \<le> n \<and> n \<le> 222)
         then char_of (n + 32) else c)"

definition lower :: "string \<Rightarrow> string" where
  "lower = map lower_char"

definition get_recommendation :: "bool \<Rightarrow> int \<Rightarrow> string \<Rightarrow> string" where
  "get_recommendation is_healthy rt node_type =
     (if \<not> is_healthy then
        (if node_type = ''ssh'' then ''SSH connection failed - verify SSH service running''
         else if node_type = ''telnet'' then ''Telnet connection failed - verify telnet service running''
         else ''Connection failed - verify node is online'')
      else if rt > 3000 then ''Very slow response (>3s) - check network performance''
      else if rt > 1000 then ''Slow response (>1s) - monitor network performance''
      else ''Good connection - healthy network connectivity'')"

text \<open>
  The two dictionary displays of \<open>_check_single_node\<close>: the record for a probe that
  returned, and the record of the \<open>except\<close> branch for a probe that raised.
  \<open>datetime.now()\<close> is the clock \<open>now\<close>.
\<close>

definition node_record :: "string \<Rightarrow> string \<Rightarrow> (exn + bool \<times> int) \<Rightarrow> real \<Rightarrow> health_record" where
  "node_record host node_type res now =
     (case res of
        Inr (is_healthy, rt) \<Rightarrow>
          \<lparr>ip = host, type = node_type,
           status = (if is_healthy then ''Healthy'' else ''Unhealthy''),
           response_time = rt,
           last_check = now,
           recommendation = get_recommendation is_healthy rt node_type\<rparr>
      | Inl e \<Rightarrow>
          \<lparr>ip = host, type = node_type, status = ''Error'',
           response_time = 0, last_check = now,
           recommendation = ''Connection failed: '' @ take 50 (str_exn e)\<rparr>)"

text \<open>
  What \<open>_check_single_node\<close> has at hand when it reaches its assignment to
  \<open>self.health_data[node_name]\<close>: the name, the record, and the state after the probe.
\<close>

definition single_node_result :: "network \<Rightarrow> node \<Rightarrow> real \<Rightarrow> state \<Rightarrow> string \<times> health_record \<times> state" where
  "single_node_result net node timeout s =
     (let node_name = dict_get node ''name'' ''Unknown'';
          host = dict_get node ''ip'' '''';
          node_type = lower (dict_get node ''type'' ''unknown'')
      in case check_connectivity net host node_type timeout s of
           (res, s') \<Rightarrow> (node_name, node_record host node_type res (clock s'), s'))"

text \<open>The method, called and run to its end on one state.\<close>

definition check_single_node :: "network \<Rightarrow> node \<Rightarrow> real \<Rightarrow> state \<Rightarrow> state" where
  "check_single_node net node timeout s =
     (case single_node_result net node timeout s of
        (node_name, r, s') \<Rightarrow> s'\<lparr>health_data := (health_data s')(node_name \<mapsto> r)\<rparr>)"

subsection \<open>\<open>_check_connections_safely\<close> and \<open>_monitor_loop\<close>\<close>

text \<open>
  What a cycle finds outside: the sockets, \<open>master_config.json\<close> and three settings
  (\<open>None\<close> where \<open>app_settings\<close> has no such key). The file is absent
  (\<open>os.path.exists\<close> is false), or reading it raises (\<open>open\<close>, \<open>json.load\<close> or
  \<open>config.get\<close>), or it is an object whose key \<open>nodes\<close> is missing or holds a list of
  nodes.
\<close>

datatype config_file = Absent | Unreadable exn | Config "node list option"

record env =
  sockets :: network
  master_config :: config_file
  max_concurrent_checks :: "int option"
  node_timeout :: "real option"
  health_check_interval :: "real option"

text \<open>
  The workers of a cycle are threads of their own. The clock of the state is the clock of the
  thread that runs the cycle; it moves when that thread waits (\<open>join\<close>, \<open>sleep\<close>). A
  worker started at some time has tried its ports and is ready to write after the time its
  attempts take; until the clock of the state has reached that time the worker is in
  flight. \<open>deliver\<close> lets the workers that have ended by now write, in the order in which
  they ended (in the order of their start when they end together).
\<close>

definition deliver :: "state \<Rightarrow> state" where
  "deliver s =
     s\<lparr>health_data :=
         foldl (\<lambda>m w. m(fst (snd w) \<mapsto> snd (snd w))) (health_data s)
           (sort_key fst (filter (\<lambda>w. fst w \<le> clock s) (in_flight s))),
       in_flight := filter (\<lambda>w. \<not> fst w \<le> clock s) (in_flight s)\<rparr>"

text \<open>
  \<open>thread.start()\<close> for the target \<open>_check_single_node\<close> with the arguments \<open>node\<close> and
  \<open>timeout\<close>. The thread object is the node together with the time at which the worker
  ends.
\<close>

definition start_thread :: "network \<Rightarrow> real \<Rightarrow> node \<Rightarrow> state \<Rightarrow> (node \<times> real) \<times> state" where
  "start_thread net timeout node s =
     (case single_node_result net node timeout s of
        (node_name, r, w) \<Rightarrow>
          ((node, clock w),
           s\<lparr>events := events s @ [ThreadStart node timeout],
             attempts := attempts w,
             in_flight := in_flight s @ [(clock w, node_name, r)]\<rparr>))"

text \<open>The first loop over the batch: the threads are created, kept in a list and started.\<close>

fun start_threads :: "network \<Rightarrow> real \<Rightarrow> node list \<Rightarrow> state \<Rightarrow> (node \<times> real) list \<times> state" where
  "start_threads net timeout [] s = ([], s)"
| "start_threads net timeout (node # batch) s =
     (case start_thread net timeout node s of
        (th, s') \<Rightarrow>
          (case start_threads net timeout batch s' of
             (ths, s'') \<Rightarrow> (th # ths, s'')))"

text \<open>
  \<open>thread.join(timeout=timeout + 1)\<close>: the caller waits until the thread has ended, but not
  longer than the given time (not at all when that time is not positive), and goes on.
\<close>

definition join_thread :: "real \<Rightarrow> state \<Rightarrow> node \<times> real \<Rightarrow> state" where
  "join_thread timeout s th =
     (case th of
        (node, ends) \<Rightarrow>
          deliver (s\<lparr>clock := max (clock s) (min ends (clock s + max (timeout + 1) 0)),
                     events := events s @ [ThreadJoin node (timeout + 1)]\<rparr>))"

text \<open>\<open>time.sleep(d)\<close>: it raises \<open>ValueError\<close> for a negative length.\<close>

definition sleep :: "real \<Rightarrow> state \<Rightarrow> state" where
  "sleep d s = deliver (s\<lparr>clock := clock s + d, events := events s @ [Sleep d]\<rparr>)"


definition process_batch :: "network \<Rightarrow> node list \<Rightarrow> real \<Rightarrow> state \<Rightarrow> state" where
  "process_batch net batch timeout s =
     (case start_threads net timeout batch s of
        (threads, s1) \<Rightarrow> sleep (1 / 10) (foldl (join_thread timeout) s1 threads))"

text \<open>
  \<open>for i in range(0, len(nodes), max_concurrent)\<close> for a positive step, with the slice
  \<open>nodes[i:i + max_concurrent]\<close>.
\<close>

function batch_loop :: "network \<Rightarrow> node list \<Rightarrow> nat \<Rightarrow> real \<Rightarrow> nat \<Rightarrow> state \<Rightarrow> state" where
  "batch_loop net nodes max_concurrent timeout i s =
     (if 0 < max_concurrent \<and> i < length nodes
      then batch_loop net nodes max_concurrent timeout (i + max_concurrent)
             (process_batch net (take max_concurrent (drop i nodes)) timeout s)
      else s)"
  by pat_completeness auto
termination
  by (relation "measure (\<lambda>(net, nodes, max_concurrent, timeout, i, s). length nodes - i)") auto

declare batch_loop.simps [simp del]

text \<open>
  The body of the \<open>try\<close> of \<open>_check_connections_safely\<close>. \<open>range\<close> raises
  \<open>ValueError\<close> for the step 0 and is empty for a negative step.
\<close>

definition cycle_body :: "env \<Rightarrow> state \<Rightarrow> (exn + unit) \<times> state" where
  "cycle_body e s =
     (case master_config e of
        Absent \<Rightarrow> (Inr (), s)
      | Unreadable x \<Rightarrow> (Inl x, s)
      | Config c \<Rightarrow>
          (let nodes = (case c of None \<Rightarrow> [] | Some ns \<Rightarrow> ns) in
           if nodes = [] then (Inr (), s)
           else
             (let max_concurrent = (case max_concurrent_checks e of None \<Rightarrow> 3 | Some m \<Rightarrow> m);
                  timeout = (case node_timeout e of None \<Rightarrow> 2 | Some t \<Rightarrow> t)
              in if max_concurrent = 0
                 then (Inl (Exn ''ValueError'' ''range() arg 3 must not be zero''), s)
                 else if max_concurrent < 0 then (Inr (), s)
                 else (Inr (), batch_loop (sockets e) nodes (nat max_concurrent) timeout 0 s))))"

text \<open>
  The method around the body of its \<open>try\<close>: the guard, the flag, the \<open>except Exception\<close>
  (which logs) and the \<open>finally\<close> (which clears the flag). The handler and the
  \<open>finally\<close> act on the state in which the body stopped.
\<close>

definition safely :: "(state \<Rightarrow> (exn + unit) \<times> state) \<Rightarrow> state \<Rightarrow> (exn + unit) \<times> state" where
  "safely body s =
     (if check_in_progress s then (Inr (), s)
      else
        (case body (s\<lparr>check_in_progress := True\<rparr>) of
           (Inl x, s') \<Rightarrow>
             (Inr (), (log_message (''Safe connection check error: '' @ str_exn x) ''ERROR'' s')
                        \<lparr>check_in_progress := False\<rparr>)
         | (Inr u, s') \<Rightarrow> (Inr (), s'\<lparr>check_in_progress := False\<rparr>)))"

definition check_connections_safely :: "env \<Rightarrow> state \<Rightarrow> (exn + unit) \<times> state" where
  "check_connections_safely e s = safely (cycle_body e) s"



definition stop :: "state \<Rightarrow> state" where
  "stop s = s\<lparr>running := False\<rparr>"

definition get_health_data :: "state \<Rightarrow> (string \<rightharpoonup> health_record)" where
  "get_health_data s = health_data s"




subsection \<open>Networks and nodes for the examples\<close>



definition net_refused :: network where
  "net_refused host port timeout = (Returned 111, 3 / 10000)"

definition net_timeout :: network where
  "net_timeout host port timeout = (Returned 11, timeout)"

definition node_local :: node where
  "node_local = [''name'' \<mapsto> ''R1'', ''ip'' \<mapsto> ''127.0.0.1'', ''type'' \<mapsto> ''ssh'']"

definition node_anon1 :: node where
  "node_anon1 = [''ip'' \<mapsto> ''10.0.0.1'', ''type'' \<mapsto> ''SSH'']"

definition node_anon2 :: node where
  "node_anon2 = Map.empty"

subsection \<open>Configurations for the examples\<close>



definition env_of :: "config_file \<Rightarrow> int option \<Rightarrow> env" where
  "env_of c m = \<lparr>sockets = net_refused, master_config = c, max_concurrent_checks = m,
     node_timeout = None, health_check_interval = None\<rparr>"

subsection \<open>The store as an object\<close>

text \<open>
  \<open>self.health_data\<close> is a reference to a dictionary object whose values are references to
  the record dictionaries. For what depends on this sharing, the objects live in a heap:
  dictionaries from names to addresses of records, records, and the next free address. The
  mapping \<open>health_data\<close> of the state above is the content of the store, read off the heap
  by \<open>view\<close>.
\<close>

type_synonym addr = nat

record heap =
  dicts :: "addr \<rightharpoonup> (string \<rightharpoonup> addr)"
  records :: "addr \<rightharpoonup> health_record"
  next_addr :: addr

definition empty_heap :: heap where
  "empty_heap = \<lparr>dicts = Map.empty, records = Map.empty, next_addr = 0\<rparr>"

text \<open>The display \<open>{}\<close> of \<open>__init__\<close>: a new, empty dictionary.\<close>

definition new_dict :: "heap \<Rightarrow> addr \<times> heap" where
  "new_dict h = (next_addr h, h\<lparr>dicts := (dicts h)(next_addr h \<mapsto> Map.empty), next_addr := Suc (next_addr h)\<rparr>)"

text \<open>The display \<open>{'ip': ..., ...}\<close> of \<open>_check_single_node\<close>: a new record object.\<close>

definition new_record :: "health_record \<Rightarrow> heap \<Rightarrow> addr \<times> heap" where
  "new_record r h = (next_addr h, h\<lparr>records := (records h)(next_addr h \<mapsto> r), next_addr := Suc (next_addr h)\<rparr>)"

text \<open>\<open>d[k] = a\<close> on the dictionary at \<open>d\<close> (nothing at an address that holds no dictionary).\<close>

definition dict_setitem :: "addr \<Rightarrow> string \<Rightarrow> addr \<Rightarrow> heap \<Rightarrow> heap" where
  "dict_setitem d k a h =
     (case dicts h d of
        None \<Rightarrow> h
      | Some m \<Rightarrow> h\<lparr>dicts := (dicts h)(d \<mapsto> m(k \<mapsto> a))\<rparr>)"

text \<open>\<open>self.health_data[node_name] = {...}\<close>.\<close>

definition store_record :: "addr \<Rightarrow> string \<Rightarrow> health_record \<Rightarrow> heap \<Rightarrow> heap" where
  "store_record d k r h = (case new_record r h of (a, h') \<Rightarrow> dict_setitem d k a h')"

text \<open>
  The assignment of \<open>_check_single_node\<close> on the heap: the record that the method has at
  hand is allocated and stored under the name of the node in the dictionary at \<open>d\<close>.
\<close>

definition check_single_node_ref :: "network \<Rightarrow> node \<Rightarrow> real \<Rightarrow> addr \<Rightarrow> state \<Rightarrow> heap \<Rightarrow> heap" where
  "check_single_node_ref net node timeout d s h =
     (case single_node_result net node timeout s of
        (node_name, r, s') \<Rightarrow> store_record d node_name r h)"

text \<open>
  \<open>d.copy()\<close>: a new dictionary with the entries of the one at \<open>d\<close>, that is with the same
  addresses of records. \<open>get_health_data\<close> returns the address of the copy.
\<close>

definition dict_copy :: "addr \<Rightarrow> heap \<Rightarrow> addr \<times> heap" where
  "dict_copy d h =
     (next_addr h, h\<lparr>dicts := (dicts h)(next_addr h \<mapsto> (case dicts h d of None \<Rightarrow> Map.empty | Some m \<Rightarrow> m)),
              next_addr := Suc (next_addr h)\<rparr>)"

definition get_health_data_ref :: "addr \<Rightarrow> heap \<Rightarrow> addr \<times> heap" where
  "get_health_data_ref d h = dict_copy d h"

text \<open>The mapping from names to records that a reference to a dictionary stands for.\<close>

definition view :: "heap \<Rightarrow> addr \<Rightarrow> (string \<rightharpoonup> health_record)" where
  "view h d =
     (case dicts h d of
        None \<Rightarrow> Map.empty
      | Some m \<Rightarrow> (\<lambda>k. case m k of None \<Rightarrow> None | Some a \<Rightarrow> records h a))"

text \<open>
  Heaps as allocation builds them: every object lies below the next free address, and every
  entry of a dictionary is the address of a record.
\<close>

definition wf_heap :: "heap \<Rightarrow> bool" where
  "wf_heap h =
     ((\<forall>d m. dicts h d = Some m \<longrightarrow> d < next_addr h \<and> (\<forall>k a. m k = Some a \<longrightarrow> a \<in> dom (records h)))
      \<and> (\<forall>a r. records h a = Some r \<longrightarrow> a < next_addr h))"

definition example_record :: "int \<Rightarrow> health_record" where
  "example_record t = \<lparr>ip = ''10.0.0.1'', type = ''ssh'', status = ''Healthy'', response_time = t,
     last_check = 0, recommendation = ''Good connection - healthy network connectivity''\<rparr>"

section \<open>Properties\<close>

subsection \<open>Properties of the probe\<close>

lemma attempted_Nil: "attempted net host timeout [] s = s"
  by (simp add: attempted_def)

lemma attempted_Cons:
  "attempted net host timeout (p # ps) s =
     attempted net host timeout ps (snd (try_connect net host p timeout s))"
  by (simp add: attempted_def)

lemma attempted_append:
  "attempted net host timeout (ps @ qs) s =
     attempted net host timeout qs (attempted net host timeout ps s)"
  by (simp add: attempted_def)

lemma try_connect_fst: "fst (try_connect net host p timeout s) = fst (net host p timeout)"
  by (simp add: try_connect_def split: prod.splits)

lemma port_loop_connect:
  "fst (net host p timeout) = Returned 0 \<Longrightarrow>
   port_loop net host timeout st (p # ps) rt s =
     (Inr (True, max (elapsed_ms st (clock (attempted net host timeout [p] s))) 1),
      attempted net host timeout [p] s)"
  by (cases "net host p timeout") (simp add: try_connect_def attempted_def)

lemma port_loop_refused:
  "fst (net host p timeout) = Returned r \<Longrightarrow> r \<noteq> 0 \<Longrightarrow>
   port_loop net host timeout st (p # ps) rt s =
     port_loop net host timeout st ps
       (Some (elapsed_ms st (clock (attempted net host timeout [p] s))))
       (attempted net host timeout [p] s)"
  by (cases "net host p timeout") (simp add: try_connect_def attempted_def)

lemma port_loop_raised:
  "fst (net host p timeout) = Raised e \<Longrightarrow>
   port_loop net host timeout st (p # ps) rt s =
     port_loop net host timeout st ps rt (attempted net host timeout [p] s)"
  by (cases "net host p timeout") (simp add: try_connect_def attempted_def)

lemma attempted_step:
  "attempted net host timeout ps (attempted net host timeout [p] s) =
     attempted net host timeout (p # ps) s"
  by (simp add: attempted_def)

lemma port_loop_success:
  assumes "\<forall>q\<in>set pre. \<not> connects net host timeout q" and "connects net host timeout p"
  shows "port_loop net host timeout st (pre @ p # post) rt s =
           (Inr (True, max (elapsed_ms st (clock (attempted net host timeout (pre @ [p]) s))) 1),
            attempted net host timeout (pre @ [p]) s)"
  using assms
proof (induction pre arbitrary: rt s)
  case Nil
  then show ?case
    by (simp add: connects_def port_loop_connect del: port_loop.simps)
next
  case (Cons q pre)
  from Cons.prems have nq: "fst (net host q timeout) \<noteq> Returned 0"
    by (simp add: connects_def)
  have IH: "\<And>rt s. port_loop net host timeout st (pre @ p # post) rt s =
           (Inr (True, max (elapsed_ms st (clock (attempted net host timeout (pre @ [p]) s))) 1),
            attempted net host timeout (pre @ [p]) s)"
    using Cons.IH Cons.prems by simp
  show ?case
  proof (cases "fst (net host q timeout)")
    case (Returned r)
    with nq have "r \<noteq> 0" by auto
    with Returned show ?thesis
      by (simp add: port_loop_refused IH attempted_step del: port_loop.simps)
  next
    case (Raised e)
    then show ?thesis
      by (simp add: port_loop_raised IH attempted_step del: port_loop.simps)
  qed
qed

lemma read_after_Cons:
  "read_after net host timeout (p # ps) =
     (if list_all (raises net host timeout) ps
      then (if raises net host timeout p then p # ps else [p])
      else p # read_after net host timeout ps)"
  by (auto simp: read_after_def list_all_iff dropWhile_append1 dropWhile_append2 dropWhile_append3)

lemma port_loop_failure:
  assumes "\<forall>q\<in>set ps. \<not> connects net host timeout q"
  shows "port_loop net host timeout st ps rt s =
           (return_false
              (if list_all (raises net host timeout) ps then rt
               else Some (elapsed_ms st (clock (attempted net host timeout (read_after net host timeout ps) s)))),
            attempted net host timeout ps s)"
  using assms
proof (induction ps arbitrary: rt s)
  case Nil
  then show ?case by (simp add: attempted_Nil)
next
  case (Cons p ps)
  have IH: "\<And>rt s. port_loop net host timeout st ps rt s =
           (return_false
              (if list_all (raises net host timeout) ps then rt
               else Some (elapsed_ms st (clock (attempted net host timeout (read_after net host timeout ps) s)))),
            attempted net host timeout ps s)"
    using Cons.IH Cons.prems by simp
  from Cons.prems have np: "fst (net host p timeout) \<noteq> Returned 0"
    by (simp add: connects_def)
  show ?case
  proof (cases "fst (net host p timeout)")
    case (Returned r)
    with np have "r \<noteq> 0" by auto
    moreover from Returned have "\<not> raises net host timeout p" by (simp add: raises_def)
    ultimately show ?thesis using Returned
      by (simp add: port_loop_refused IH attempted_step read_after_Cons del: port_loop.simps)
  next
    case (Raised e)
    then have "raises net host timeout p" by (simp add: raises_def)
    with Raised show ?thesis
      by (simp add: port_loop_raised IH attempted_step read_after_Cons del: port_loop.simps)
  qed
qed

lemma attempted_fields:
  "attempts (attempted net host timeout ps s) = attempts s @ map (\<lambda>p. (host, p, timeout)) ps"
  "clock (attempted net host timeout ps s) = clock s + sum_list (map (\<lambda>p. snd (net host p timeout)) ps)"
  "health_data (attempted net host timeout ps s) = health_data s"
  "running (attempted net host timeout ps s) = running s"
  "check_in_progress (attempted net host timeout ps s) = check_in_progress s"
  "log_lines (attempted net host timeout ps s) = log_lines s"
  "events (attempted net host timeout ps s) = events s"
  by (induction ps arbitrary: s) (simp_all add: attempted_Nil attempted_Cons try_connect_def split: prod.splits)

lemma tried_ports_success:
  assumes "list_ex (connects net host timeout) ps"
  shows "\<exists>pre p post. ps = pre @ p # post \<and> (\<forall>q\<in>set pre. \<not> connects net host timeout q)
           \<and> connects net host timeout p \<and> tried_ports net host timeout ps = pre @ [p]"
proof -
  let ?P = "\<lambda>p. \<not> connects net host timeout p"
  from assms have ne: "dropWhile ?P ps \<noteq> []"
    by (auto simp: list_ex_iff)
  then obtain p post where d: "dropWhile ?P ps = p # post"
    by (cases "dropWhile ?P ps") auto
  have "ps = takeWhile ?P ps @ p # post"
    using d takeWhile_dropWhile_id [of ?P ps] by simp
  moreover have "\<forall>q\<in>set (takeWhile ?P ps). ?P q"
    by (auto dest: set_takeWhileD)
  moreover have "connects net host timeout p"
    using d hd_dropWhile [OF ne] by simp
  moreover have "tried_ports net host timeout ps = takeWhile ?P ps @ [p]"
    by (simp add: tried_ports_def d)
  ultimately show ?thesis by blast
qed

lemma tried_ports_failure:
  "\<not> list_ex (connects net host timeout) ps \<Longrightarrow> tried_ports net host timeout ps = ps"
proof -
  assume "\<not> list_ex (connects net host timeout) ps"
  then have a: "\<forall>q\<in>set ps. \<not> connects net host timeout q"
    by (simp add: list_ex_iff)
  then have tw: "takeWhile (\<lambda>p. \<not> connects net host timeout p) ps = ps"
    and dw: "dropWhile (\<lambda>p. \<not> connects net host timeout p) ps = []"
    by (simp_all add: takeWhile_eq_all_conv)
  show ?thesis unfolding tried_ports_def tw dw by simp
qed

lemma port_loop_None:
  "port_loop net host timeout st ps None s =
     (let s' = attempted net host timeout (tried_ports net host timeout ps) s in
      if list_ex (connects net host timeout) ps
      then (Inr (True, max (elapsed_ms st (clock s')) 1), s')
      else if list_all (raises net host timeout) ps then (Inl unbound_local, s')
      else (Inr (False, elapsed_ms st (clock (attempted net host timeout (read_after net host timeout ps) s))), s'))"
proof (cases "list_ex (connects net host timeout) ps")
  case True
  from tried_ports_success [OF True] obtain pre p post where
    "ps = pre @ p # post" "\<forall>q\<in>set pre. \<not> connects net host timeout q"
    "connects net host timeout p" "tried_ports net host timeout ps = pre @ [p]"
    by blast
  with True show ?thesis
    by (simp add: port_loop_success Let_def del: port_loop.simps)
next
  case False
  then have "\<forall>q\<in>set ps. \<not> connects net host timeout q"
    by (simp add: list_ex_iff)
  from port_loop_failure [OF this] False show ?thesis
    by (simp add: tried_ports_failure Let_def)
qed

subsection \<open>What the probe returns\<close>

lemma check_connectivity_eq:
  "check_connectivity net host node_type timeout s =
     (Inr (if list_ex (connects net host timeout) (test_ports node_type)
           then (True, max (elapsed_ms (clock s)
                   (clock (attempted net host timeout (tried_ports net host timeout (test_ports node_type)) s))) 1)
           else (False, elapsed_ms (clock s)
                   (clock (attempted net host timeout (read_after net host timeout (test_ports node_type)) s)))),
      attempted net host timeout (tried_ports net host timeout (test_ports node_type)) s)"
  unfolding check_connectivity_def Let_def port_loop_None
  by (simp add: read_after_def tried_ports_failure)

lemma read_after_subset: "set (read_after net host timeout ps) \<subseteq> set ps"
  by (auto simp: read_after_def dest: set_dropWhileD)

lemma read_after_last:
  "ps \<noteq> [] \<Longrightarrow> \<not> raises net host timeout (last ps) \<Longrightarrow> read_after net host timeout ps = ps"
  by (cases ps rule: rev_cases) (auto simp: read_after_def)

lemma read_after_all: "list_all (raises net host timeout) ps \<Longrightarrow> read_after net host timeout ps = ps"
  by (simp add: read_after_def)

lemma test_ports_nonempty: "test_ports node_type \<noteq> []"
  by (simp add: test_ports_def)

lemma read_after_test_ports:
  "list_all (raises net host timeout) (test_ports node_type)
     \<or> \<not> raises net host timeout (last (test_ports node_type)) \<Longrightarrow>
   read_after net host timeout (test_ports node_type) = test_ports node_type"
  using read_after_all read_after_last [OF test_ports_nonempty] by blast




subsection \<open>Properties of \<open>_check_single_node\<close> and of a batch\<close>

lemma lower_literals:
  "lower ''unknown'' = ''unknown''" "lower ''ssh'' = ''ssh''" "lower ''telnet'' = ''telnet''"
  by code_simp+

lemma check_single_node_eq:
  "check_single_node net node timeout s =
     (let node_name = dict_get node ''name'' ''Unknown'';
          host = dict_get node ''ip'' [];
          node_type = lower (dict_get node ''type'' ''unknown'');
          ports = test_ports node_type;
          s' = attempted net host timeout (tried_ports net host timeout ports) s;
          is_healthy = list_ex (connects net host timeout) ports;
          rt = (if is_healthy then max (elapsed_ms (clock s) (clock s')) 1
                else elapsed_ms (clock s)
                       (clock (attempted net host timeout (read_after net host timeout ports) s)))
      in s'\<lparr>health_data := (health_data s)(node_name \<mapsto>
              \<lparr>ip = host, type = node_type,
               status = (if is_healthy then ''Healthy'' else ''Unhealthy''),
               response_time = rt, last_check = clock s',
               recommendation = get_recommendation is_healthy rt node_type\<rparr>)\<rparr>)"
  by (simp add: check_single_node_def single_node_result_def node_record_def check_connectivity_eq Let_def
      attempted_fields)


lemma check_single_node_dom:
  "dom (health_data (check_single_node net node timeout s)) =
     insert (dict_get node ''name'' ''Unknown'') (dom (health_data s))"
  by (simp add: check_single_node_eq Let_def)

lemma py_int_nonneg: "0 \<le> x \<Longrightarrow> 0 \<le> py_int x"
  by (simp add: py_int_def)

lemma elapsed_ms_nonneg: "start_time \<le> t \<Longrightarrow> 0 \<le> elapsed_ms start_time t"
  by (simp add: elapsed_ms_def py_int_nonneg)

lemma clock_attempted_mono:
  assumes "\<forall>p\<in>set ps. 0 \<le> snd (net host p timeout)"
  shows "clock s \<le> clock (attempted net host timeout ps s)"
  using assms by (auto simp: attempted_fields intro!: sum_list_nonneg)


text \<open>
  Claim C5 says that a node whose probe fails at the connection level is recorded with a
  response time above 0. The node \<open>R1\<close> at \<open>127.0.0.1\<close> of type \<open>ssh\<close>, refused on
  port 22 after 0.3 milliseconds, is recorded as \<open>Unhealthy\<close> with the response time 0:
  only the successful path takes the maximum with 1.
\<close>

theorem check_single_node_refused_counterexample:
  "fst (net_refused ''127.0.0.1'' 22 2) = Returned 111
   \<and> status (the (health_data (check_single_node net_refused node_local 2 (init 0)) ''R1'')) = ''Unhealthy''
   \<and> \<not> 0 < response_time (the (health_data (check_single_node net_refused node_local 2 (init 0)) ''R1''))"
  by (simp add: check_single_node_eq Let_def node_local_def dict_get_def lower_literals test_ports_def
      tried_ports_def read_after_def connects_def raises_def net_refused_def attempted_def
      try_connect_def elapsed_ms_def py_int_def init_def get_recommendation_def)

lemma check_single_node_attempts:
  "attempts (check_single_node net node timeout s) =
     attempts s @ map (\<lambda>p. (dict_get node ''ip'' [], p, timeout))
       (tried_ports net (dict_get node ''ip'' []) timeout
          (test_ports (lower (dict_get node ''type'' ''unknown''))))"
  by (simp add: check_single_node_eq Let_def attempted_fields)

lemma check_single_node_written:
  "health_data (check_single_node net node timeout s) =
     (health_data s)(dict_get node ''name'' ''Unknown'' \<mapsto>
        the (health_data (check_single_node net node timeout s) (dict_get node ''name'' ''Unknown'')))"
  "ip (the (health_data (check_single_node net node timeout s) (dict_get node ''name'' ''Unknown''))) =
     dict_get node ''ip'' []"
  "type (the (health_data (check_single_node net node timeout s) (dict_get node ''name'' ''Unknown''))) =
     lower (dict_get node ''type'' ''unknown'')"
  by (simp_all add: check_single_node_eq Let_def)

lemma check_single_node_health_data:
  "\<exists>r. health_data (check_single_node net node timeout s) =
          (health_data s)(dict_get node ''name'' ''Unknown'' \<mapsto> r)
       \<and> ip r = dict_get node ''ip'' []
       \<and> type r = lower (dict_get node ''type'' ''unknown'')"
  using check_single_node_written [of net node timeout s] by blast

text \<open>
  Claim C10. A node without the key \<open>name\<close> is recorded under \<open>Unknown\<close>; of two such
  nodes checked one after the other a single record remains, that of the one written last.
  A node without \<open>ip\<close> is probed and recorded with the empty host. A node without
  \<open>type\<close> is recorded with the type \<open>unknown\<close>, its candidate ports are 22 and 23, and
  port 23 is tried whenever port 22 does not connect.
\<close>

theorem check_single_node_defaults:
  "(node ''name'' = None \<longrightarrow>
      dom (health_data (check_single_node net node timeout s)) = insert ''Unknown'' (dom (health_data s)))
   \<and> (node1 ''name'' = None \<and> node2 ''name'' = None \<longrightarrow>
        (\<exists>r. health_data (check_single_node net node2 timeout (check_single_node net node1 timeout s)) =
                (health_data s)(''Unknown'' \<mapsto> r)
             \<and> ip r = dict_get node2 ''ip'' []
             \<and> type r = lower (dict_get node2 ''type'' ''unknown'')))
   \<and> (node ''ip'' = None \<longrightarrow>
        (\<exists>r. health_data (check_single_node net node timeout s) (dict_get node ''name'' ''Unknown'') = Some r
             \<and> ip r = [])
        \<and> attempts (check_single_node net node timeout s) =
            attempts s @ map (\<lambda>p. ([], p, timeout))
              (tried_ports net [] timeout (test_ports (lower (dict_get node ''type'' ''unknown'')))))
   \<and> (node ''type'' = None \<longrightarrow>
        (\<exists>r. health_data (check_single_node net node timeout s) (dict_get node ''name'' ''Unknown'') = Some r
             \<and> type r = ''unknown'')
        \<and> test_ports (lower (dict_get node ''type'' ''unknown'')) = [22, 23]
        \<and> attempts (check_single_node net node timeout s) =
            attempts s @
              (if connects net (dict_get node ''ip'' []) timeout 22
               then [(dict_get node ''ip'' [], 22, timeout)]
               else [(dict_get node ''ip'' [], 22, timeout), (dict_get node ''ip'' [], 23, timeout)]))"
proof -
  have a: "node ''name'' = None \<longrightarrow>
      dom (health_data (check_single_node net node timeout s)) = insert ''Unknown'' (dom (health_data s))"
    by (simp add: check_single_node_dom dict_get_def)
  have b: "node1 ''name'' = None \<and> node2 ''name'' = None \<longrightarrow>
        (\<exists>r. health_data (check_single_node net node2 timeout (check_single_node net node1 timeout s)) =
                (health_data s)(''Unknown'' \<mapsto> r)
             \<and> ip r = dict_get node2 ''ip'' []
             \<and> type r = lower (dict_get node2 ''type'' ''unknown''))"
  proof
    assume n: "node1 ''name'' = None \<and> node2 ''name'' = None"
    then have k: "dict_get node1 ''name'' ''Unknown'' = ''Unknown''"
      "dict_get node2 ''name'' ''Unknown'' = ''Unknown''"
      by (simp_all add: dict_get_def)
    obtain r1 where r1: "health_data (check_single_node net node1 timeout s) =
        (health_data s)(''Unknown'' \<mapsto> r1)"
      using check_single_node_health_data [of net node1 timeout s] k by auto
    obtain r2 where r2: "health_data (check_single_node net node2 timeout (check_single_node net node1 timeout s)) =
        (health_data (check_single_node net node1 timeout s))(''Unknown'' \<mapsto> r2)"
      "ip r2 = dict_get node2 ''ip'' []" "type r2 = lower (dict_get node2 ''type'' ''unknown'')"
      using check_single_node_health_data [of net node2 timeout "check_single_node net node1 timeout s"] k
      by auto
    from r1 r2 show "\<exists>r. health_data (check_single_node net node2 timeout (check_single_node net node1 timeout s)) =
                (health_data s)(''Unknown'' \<mapsto> r)
             \<and> ip r = dict_get node2 ''ip'' []
             \<and> type r = lower (dict_get node2 ''type'' ''unknown'')"
      by (intro exI [of _ r2]) simp
  qed
  have c: "node ''ip'' = None \<longrightarrow>
        (\<exists>r. health_data (check_single_node net node timeout s) (dict_get node ''name'' ''Unknown'') = Some r
             \<and> ip r = [])
        \<and> attempts (check_single_node net node timeout s) =
            attempts s @ map (\<lambda>p. ([], p, timeout))
              (tried_ports net [] timeout (test_ports (lower (dict_get node ''type'' ''unknown''))))"
  proof
    assume "node ''ip'' = None"
    then have h: "dict_get node ''ip'' [] = []" by (simp add: dict_get_def)
    show "(\<exists>r. health_data (check_single_node net node timeout s) (dict_get node ''name'' ''Unknown'') = Some r
             \<and> ip r = [])
        \<and> attempts (check_single_node net node timeout s) =
            attempts s @ map (\<lambda>p. ([], p, timeout))
              (tried_ports net [] timeout (test_ports (lower (dict_get node ''type'' ''unknown''))))"
      using check_single_node_health_data [of net node timeout s]
        check_single_node_attempts [of net node timeout s]
      unfolding h by auto
  qed
  have d: "node ''type'' = None \<longrightarrow>
        (\<exists>r. health_data (check_single_node net node timeout s) (dict_get node ''name'' ''Unknown'') = Some r
             \<and> type r = ''unknown'')
        \<and> test_ports (lower (dict_get node ''type'' ''unknown'')) = [22, 23]
        \<and> attempts (check_single_node net node timeout s) =
            attempts s @
              (if connects net (dict_get node ''ip'' []) timeout 22
               then [(dict_get node ''ip'' [], 22, timeout)]
               else [(dict_get node ''ip'' [], 22, timeout), (dict_get node ''ip'' [], 23, timeout)])"
  proof
    assume "node ''type'' = None"
    then have t: "lower (dict_get node ''type'' ''unknown'') = ''unknown''"
      by (simp add: dict_get_def lower_literals)
    have p: "test_ports ''unknown'' = [22, 23]" by (simp add: test_ports_def)
    show "(\<exists>r. health_data (check_single_node net node timeout s) (dict_get node ''name'' ''Unknown'') = Some r
             \<and> type r = ''unknown'')
        \<and> test_ports (lower (dict_get node ''type'' ''unknown'')) = [22, 23]
        \<and> attempts (check_single_node net node timeout s) =
            attempts s @
              (if connects net (dict_get node ''ip'' []) timeout 22
               then [(dict_get node ''ip'' [], 22, timeout)]
               else [(dict_get node ''ip'' [], 22, timeout), (dict_get node ''ip'' [], 23, timeout)])"
      using check_single_node_health_data [of net node timeout s]
        check_single_node_attempts [of net node timeout s]
      unfolding t p by (auto simp: tried_ports_def)
  qed
  from a b c d show ?thesis by blast
qed

theorem check_single_node_defaults_witness:
  "dom (health_data (check_single_node net_refused node_anon2 2
          (check_single_node net_refused node_anon1 2 (init 0)))) = {''Unknown''}
   \<and> ip (the (health_data (check_single_node net_refused node_anon2 2
          (check_single_node net_refused node_anon1 2 (init 0))) ''Unknown'')) = []
   \<and> type (the (health_data (check_single_node net_refused node_anon2 2
          (check_single_node net_refused node_anon1 2 (init 0))) ''Unknown'')) = ''unknown''
   \<and> attempts (check_single_node net_refused node_anon2 2 (init 0)) = [([], 22, 2), ([], 23, 2)]"
proof -
  have n: "node_anon1 ''name'' = None" "node_anon2 ''name'' = None" "node_anon2 ''type'' = None"
    by (simp_all add: node_anon1_def node_anon2_def)
  have g: "dict_get node_anon2 ''ip'' [] = []"
    "lower (dict_get node_anon2 ''type'' ''unknown'') = ''unknown''"
    by (simp_all add: node_anon2_def dict_get_def lower_literals)
  have nc: "\<not> connects net_refused [] 2 22"
    by (simp add: connects_def net_refused_def)
  note T = check_single_node_defaults [of node_anon2 net_refused 2 "init 0" node_anon1 node_anon2]
  from T n have "\<exists>r. health_data (check_single_node net_refused node_anon2 2
          (check_single_node net_refused node_anon1 2 (init 0))) = (health_data (init 0))(''Unknown'' \<mapsto> r)
      \<and> ip r = dict_get node_anon2 ''ip'' []
      \<and> type r = lower (dict_get node_anon2 ''type'' ''unknown'')"
    by blast
  then obtain r where r: "health_data (check_single_node net_refused node_anon2 2
          (check_single_node net_refused node_anon1 2 (init 0))) = (health_data (init 0))(''Unknown'' \<mapsto> r)"
      "ip r = []" "type r = ''unknown''"
    unfolding g by blast
  from T n have "attempts (check_single_node net_refused node_anon2 2 (init 0)) =
      attempts (init 0) @
        (if connects net_refused (dict_get node_anon2 ''ip'' []) 2 22
         then [(dict_get node_anon2 ''ip'' [], 22, 2)]
         else [(dict_get node_anon2 ''ip'' [], 22, 2), (dict_get node_anon2 ''ip'' [], 23, 2)])"
    by blast
  then have a: "attempts (check_single_node net_refused node_anon2 2 (init 0)) = [([], 22, 2), ([], 23, 2)]"
    unfolding g by (simp add: nc init_def)
  from r a show ?thesis
    by (simp add: init_def)
qed

text \<open>
  Claim C5, as the code has it. When no candidate port of a node connects, the probe returns
  \<open>False\<close> without raising, and the node is recorded with the status \<open>Unhealthy\<close> and
  the response time that the probe returned. That response time is at least 0 when no
  attempt takes a negative time. It is the milliseconds, truncated, between the start of the
  probe and its end when every attempt raised or the attempt on the last candidate port
  returned an error code; nothing is said of it when an attempt returned an error code and
  the last one raised.
\<close>

theorem check_single_node_unhealthy:
  assumes "\<not> list_ex (connects net (dict_get node ''ip'' []) timeout)
               (test_ports (lower (dict_get node ''type'' ''unknown'')))"
  shows "\<exists>r. health_data (check_single_node net node timeout s) (dict_get node ''name'' ''Unknown'') = Some r
     \<and> status r = ''Unhealthy''
     \<and> fst (check_connectivity net (dict_get node ''ip'' [])
               (lower (dict_get node ''type'' ''unknown'')) timeout s) = Inr (False, response_time r)
     \<and> (list_all (\<lambda>p. 0 \<le> snd (net (dict_get node ''ip'' []) p timeout))
           (test_ports (lower (dict_get node ''type'' ''unknown''))) \<longrightarrow> 0 \<le> response_time r)
     \<and> (list_all (raises net (dict_get node ''ip'' []) timeout)
            (test_ports (lower (dict_get node ''type'' ''unknown'')))
          \<or> \<not> raises net (dict_get node ''ip'' []) timeout
              (last (test_ports (lower (dict_get node ''type'' ''unknown'')))) \<longrightarrow>
          response_time r = elapsed_ms (clock s) (clock (check_single_node net node timeout s)))"
proof -
  let ?host = "dict_get node ''ip'' []"
  let ?ports = "test_ports (lower (dict_get node ''type'' ''unknown''))"
  let ?ra = "read_after net ?host timeout ?ports"
  have mono: "list_all (\<lambda>p. 0 \<le> snd (net ?host p timeout)) ?ports \<Longrightarrow>
      0 \<le> elapsed_ms (clock s) (clock (attempted net ?host timeout ?ra s))"
  proof -
    assume "list_all (\<lambda>p. 0 \<le> snd (net ?host p timeout)) ?ports"
    then have "\<forall>p\<in>set ?ra. 0 \<le> snd (net ?host p timeout)"
      using read_after_subset [of net ?host timeout ?ports] by (auto simp: list_all_iff)
    then show ?thesis
      by (intro elapsed_ms_nonneg clock_attempted_mono)
  qed
  have lastp: "list_all (raises net ?host timeout) ?ports \<or> \<not> raises net ?host timeout (last ?ports)
      \<Longrightarrow> ?ra = ?ports"
    by (rule read_after_test_ports)
  have tp: "tried_ports net ?host timeout ?ports = ?ports"
    using assms by (rule tried_ports_failure)
  show ?thesis
    using assms mono lastp
    by (simp add: check_single_node_eq check_connectivity_eq Let_def tp)
qed

theorem check_single_node_unhealthy_witness:
  "health_data (check_single_node net_timeout node_local 2 (init 0)) ''R1'' =
     Some \<lparr>ip = ''127.0.0.1'', type = ''ssh'', status = ''Unhealthy'', response_time = 2000,
       last_check = 2,
       recommendation = ''SSH connection failed - verify SSH service running''\<rparr>"
proof -
  have n: "dict_get node_local ''name'' ''Unknown'' = ''R1''"
    "dict_get node_local ''ip'' [] = ''127.0.0.1''"
    "lower (dict_get node_local ''type'' ''unknown'') = ''ssh''"
    by (simp_all add: node_local_def dict_get_def lower_literals)
  have nc: "\<not> list_ex (connects net_timeout ''127.0.0.1'' 2) (test_ports ''ssh'')"
    by (simp add: test_ports_def connects_def net_timeout_def)
  have e: "health_data (check_single_node net_timeout node_local 2 (init 0)) ''R1'' =
     Some \<lparr>ip = ''127.0.0.1'', type = ''ssh'', status = ''Unhealthy'', response_time = 2000,
       last_check = 2,
       recommendation = ''SSH connection failed - verify SSH service running''\<rparr>"
    by (simp add: check_single_node_eq Let_def n test_ports_def
      tried_ports_def read_after_def connects_def raises_def net_timeout_def attempted_def
      try_connect_def elapsed_ms_def py_int_def init_def get_recommendation_def)
  from check_single_node_unhealthy [of net_timeout node_local 2 "init 0"] nc e
  show ?thesis
    unfolding n by simp
qed























subsection \<open>Properties of the check cycle\<close>









lemma state_flag_roundtrip:
  "\<not> check_in_progress s \<Longrightarrow> s\<lparr>check_in_progress := False\<rparr> = s"
  by (cases s) simp




text \<open>
  Claim C7. When the configuration file is absent, or has no key \<open>nodes\<close>, or an empty list
  of nodes, the cycle returns normally and leaves the whole state as it was: no record is
  written, nothing is logged, and \<open>get_health_data\<close> returns what it returned before, the
  empty mapping when nothing was ever written.
\<close>

theorem cycle_noop_without_nodes:
  assumes "master_config e = Absent \<or> master_config e = Config None \<or> master_config e = Config (Some [])"
  shows "check_connections_safely e s = (Inr (), s)
    \<and> get_health_data (snd (check_connections_safely e s)) = get_health_data s
    \<and> get_health_data (snd (check_connections_safely e (init t0))) = Map.empty"
proof -
  have cb: "cycle_body e s' = (Inr (), s')" for s'
    using assms by (auto simp: cycle_body_def)
  have eq: "check_connections_safely e s' = (Inr (), s')" for s'
    by (cases "check_in_progress s'")
      (simp_all add: check_connections_safely_def safely_def cb state_flag_roundtrip)
  show ?thesis
    by (simp add: eq get_health_data_def init_def)
qed

theorem cycle_noop_without_nodes_witness:
  "check_connections_safely (env_of (Config (Some [])) None) (init 0) = (Inr (), init 0)
   \<and> get_health_data (snd (check_connections_safely (env_of Absent None) (init 0))) = Map.empty"
proof -
  have a: "master_config (env_of (Config (Some [])) None) = Absent
     \<or> master_config (env_of (Config (Some [])) None) = Config None
     \<or> master_config (env_of (Config (Some [])) None) = Config (Some [])"
    by (simp add: env_of_def)
  have b: "master_config (env_of Absent None) = Absent
     \<or> master_config (env_of Absent None) = Config None
     \<or> master_config (env_of Absent None) = Config (Some [])"
    by (simp add: env_of_def)
  from cycle_noop_without_nodes [OF a, of "init 0" 0] cycle_noop_without_nodes [OF b, of "init 0" 0]
  show ?thesis by blast
qed









subsection \<open>Properties of the store as an object\<close>

lemma wf_empty_heap: "wf_heap empty_heap"
  by (simp add: wf_heap_def empty_heap_def)

lemma wf_new_dict: "wf_heap h \<Longrightarrow> wf_heap (snd (new_dict h))"
  by (auto simp: wf_heap_def new_dict_def less_Suc_eq split: if_splits)

lemma wf_store_record:
  assumes "wf_heap h"
  shows "wf_heap (store_record d k r h)"
proof (cases "dicts h d")
  case None
  with assms show ?thesis
    by (auto simp: wf_heap_def store_record_def new_record_def dict_setitem_def less_Suc_eq
        split: if_splits)
next
  case (Some m)
  with assms show ?thesis
    unfolding wf_heap_def store_record_def new_record_def dict_setitem_def
    by (auto simp: less_Suc_eq split: if_splits)
qed

lemma wf_dict_copy: "wf_heap h \<Longrightarrow> wf_heap (snd (dict_copy d h))"
  unfolding wf_heap_def dict_copy_def
  by (auto simp: less_Suc_eq split: if_splits option.splits)

lemma view_store_record:
  assumes "wf_heap h" and "dicts h d = Some m"
  shows "view (store_record d k r h) d = (view h d)(k \<mapsto> r)"
proof
  fix j
  have fresh: "m j = Some a \<Longrightarrow> a \<noteq> next_addr h" for a
    using assms by (fastforce simp: wf_heap_def)
  show "view (store_record d k r h) d j = ((view h d)(k \<mapsto> r)) j"
    using assms(2) fresh
    by (auto simp: view_def store_record_def new_record_def dict_setitem_def split: option.splits)
qed

lemma view_store_record_other:
  assumes "wf_heap h" and "c \<noteq> d"
  shows "view (store_record d k r h) c = view h c"
proof
  fix j
  have fresh: "dicts h c = Some m \<Longrightarrow> m j = Some a \<Longrightarrow> a \<noteq> next_addr h" for m a
    using assms(1) by (fastforce simp: wf_heap_def)
  show "view (store_record d k r h) c j = view h c j"
    using assms(2) fresh
    by (auto simp: view_def store_record_def new_record_def dict_setitem_def split: option.splits)
qed

lemma dicts_store_record:
  "dicts h d = Some m \<Longrightarrow> \<exists>m'. dicts (store_record d k r h) d = Some m'"
  by (simp add: store_record_def new_record_def dict_setitem_def)

lemma dict_copy_props:
  assumes "wf_heap h" and "dicts h d = Some m"
  shows "fst (dict_copy d h) \<noteq> d"
    and "dicts h (fst (dict_copy d h)) = None"
    and "dicts (snd (dict_copy d h)) (fst (dict_copy d h)) = Some m"
    and "dicts (snd (dict_copy d h)) d = Some m"
    and "view (snd (dict_copy d h)) d = view h d"
    and "view (snd (dict_copy d h)) (fst (dict_copy d h)) = view h d"
proof -
  have lt: "d < next_addr h" using assms by (auto simp: wf_heap_def)
  have none: "dicts h (next_addr h) = None"
  proof (cases "dicts h (next_addr h)")
    case None then show ?thesis .
  next
    case (Some m')
    with assms(1) have "next_addr h < next_addr h" by (auto simp: wf_heap_def)
    then show ?thesis by simp
  qed
  show "fst (dict_copy d h) \<noteq> d" using lt by (simp add: dict_copy_def)
  show "dicts h (fst (dict_copy d h)) = None" using none by (simp add: dict_copy_def)
  show "dicts (snd (dict_copy d h)) (fst (dict_copy d h)) = Some m"
    using assms(2) by (simp add: dict_copy_def)
  show "dicts (snd (dict_copy d h)) d = Some m"
    using assms(2) lt by (simp add: dict_copy_def)
  show "view (snd (dict_copy d h)) d = view h d"
    using assms(2) lt by (simp add: dict_copy_def view_def fun_eq_iff split: option.splits)
  show "view (snd (dict_copy d h)) (fst (dict_copy d h)) = view h d"
    using assms(2) by (simp add: dict_copy_def view_def fun_eq_iff split: option.splits)
qed

lemma single_node_result_health_data:
  "health_data (snd (snd (single_node_result net node timeout s))) = health_data s"
  by (simp add: single_node_result_def check_connectivity_eq Let_def attempted_fields split: prod.splits)

lemma check_single_node_ref_view:
  assumes "wf_heap h" and "dicts h d = Some m" and "view h d = health_data s"
  shows "view (check_single_node_ref net node timeout d s h) d =
      health_data (check_single_node net node timeout s)"
proof -
  obtain n r s' where e: "single_node_result net node timeout s = (n, r, s')"
    by (cases "single_node_result net node timeout s") auto
  have "health_data s' = health_data s"
    using single_node_result_health_data [of net node timeout s] by (simp add: e)
  then show ?thesis
    using view_store_record [OF assms(1,2)] assms(3)
    by (simp add: check_single_node_ref_def check_single_node_def e)
qed

text \<open>
  Claim C8. In a heap as allocation builds it, with the store a dictionary at \<open>d\<close>: writing
  a record under a name and then another under the same name leaves the store as it was
  before with the second record under that name, and the second write adds no entry.
  \<open>get_health_data\<close> returns a dictionary other than the store, with the content of the
  store, and leaves the store as it was; a write to the store after the read leaves the
  returned dictionary with what it held and changes the store. The write of
  \<open>_check_single_node\<close> on the heap is the write of the method on the state, and two
  checks of nodes of the same name, one after the other, leave under that name the record of
  the second.
\<close>

theorem store_overwrite_and_copy:
  assumes "wf_heap h" and "dicts h d = Some m"
    and "dict_get node1 ''name'' ''Unknown'' = dict_get node2 ''name'' ''Unknown''"
  shows "view (store_record d k r2 (store_record d k r1 h)) d = (view h d)(k \<mapsto> r2)
    \<and> dom (view (store_record d k r2 (store_record d k r1 h)) d) = dom (view (store_record d k r1 h) d)
    \<and> fst (get_health_data_ref d h) \<noteq> d
    \<and> view (snd (get_health_data_ref d h)) d = view h d
    \<and> view (snd (get_health_data_ref d h)) (fst (get_health_data_ref d h)) = view h d
    \<and> dicts (snd (get_health_data_ref d h)) (fst (get_health_data_ref d h)) = dicts h d
    \<and> view (store_record d k r (snd (get_health_data_ref d h))) (fst (get_health_data_ref d h)) = view h d
    \<and> view (store_record d k r (snd (get_health_data_ref d h))) d = (view h d)(k \<mapsto> r)
    \<and> (view h d = health_data s \<longrightarrow>
          view (check_single_node_ref net node1 timeout d s h) d =
            health_data (check_single_node net node1 timeout s))
    \<and> (\<exists>r'. health_data (check_single_node net node2 timeout (check_single_node net node1 timeout s)) =
               (health_data s)(dict_get node2 ''name'' ''Unknown'' \<mapsto> r')
            \<and> ip r' = dict_get node2 ''ip'' []
            \<and> type r' = lower (dict_get node2 ''type'' ''unknown''))"
proof -
  let ?c = "fst (get_health_data_ref d h)"
  let ?h' = "snd (get_health_data_ref d h)"
  obtain m1 where m1: "dicts (store_record d k r1 h) d = Some m1"
    using dicts_store_record [OF assms(2)] by blast
  have w1: "wf_heap (store_record d k r1 h)"
    by (rule wf_store_record [OF assms(1)])
  have v1: "view (store_record d k r1 h) d = (view h d)(k \<mapsto> r1)"
    by (rule view_store_record [OF assms(1,2)])
  have v2: "view (store_record d k r2 (store_record d k r1 h)) d = (view h d)(k \<mapsto> r2)"
    using view_store_record [OF w1 m1] v1 by simp
  have wc: "wf_heap ?h'"
    using wf_dict_copy [OF assms(1)] by (simp add: get_health_data_ref_def)
  note cp = dict_copy_props [OF assms(1,2), folded get_health_data_ref_def]
  have a: "view (store_record d k r ?h') ?c = view h d"
    using view_store_record_other [OF wc cp(1)] cp(6) by simp
  have b: "view (store_record d k r ?h') d = (view h d)(k \<mapsto> r)"
    using view_store_record [OF wc cp(4)] cp(5) by simp
  obtain q1 where q1: "health_data (check_single_node net node1 timeout s) =
        (health_data s)(dict_get node1 ''name'' ''Unknown'' \<mapsto> q1)"
    using check_single_node_health_data [of net node1 timeout s] by blast
  obtain q2 where q2: "health_data (check_single_node net node2 timeout (check_single_node net node1 timeout s)) =
        (health_data (check_single_node net node1 timeout s))(dict_get node2 ''name'' ''Unknown'' \<mapsto> q2)"
      "ip q2 = dict_get node2 ''ip'' []" "type q2 = lower (dict_get node2 ''type'' ''unknown'')"
    using check_single_node_health_data [of net node2 timeout "check_single_node net node1 timeout s"]
    by blast
  have c: "\<exists>r'. health_data (check_single_node net node2 timeout (check_single_node net node1 timeout s)) =
               (health_data s)(dict_get node2 ''name'' ''Unknown'' \<mapsto> r')
            \<and> ip r' = dict_get node2 ''ip'' []
            \<and> type r' = lower (dict_get node2 ''type'' ''unknown'')"
    using q1 q2 assms(3) by (intro exI [of _ q2]) simp
  have e: "view h d = health_data s \<longrightarrow>
          view (check_single_node_ref net node1 timeout d s h) d =
            health_data (check_single_node net node1 timeout s)"
    using check_single_node_ref_view [OF assms(1,2)] by blast
  show ?thesis
    using v1 v2 cp(1,5,6) cp(3) assms(2) a b c e by simp
qed

theorem store_overwrite_and_copy_witness:
  "view (store_record 0 ''R1'' (example_record 7)
      (store_record 0 ''R1'' (example_record 5) (snd (new_dict empty_heap)))) 0 =
     [''R1'' \<mapsto> example_record 7]
   \<and> view (store_record 0 ''R1'' (example_record 7)
        (snd (get_health_data_ref 0 (store_record 0 ''R1'' (example_record 5) (snd (new_dict empty_heap))))))
        (fst (get_health_data_ref 0 (store_record 0 ''R1'' (example_record 5) (snd (new_dict empty_heap))))) =
     [''R1'' \<mapsto> example_record 5]"
proof -
  let ?h0 = "snd (new_dict empty_heap)"
  let ?h1 = "store_record 0 ''R1'' (example_record 5) ?h0"
  have w0: "wf_heap ?h0" by (rule wf_new_dict [OF wf_empty_heap])
  have d0: "dicts ?h0 0 = Some Map.empty" by (simp add: new_dict_def empty_heap_def)
  have v0: "view ?h0 0 = Map.empty" by (simp add: view_def d0)
  have w1: "wf_heap ?h1" by (rule wf_store_record [OF w0])
  obtain m1 where d1: "dicts ?h1 0 = Some m1"
    using dicts_store_record [OF d0] by blast
  have n: "dict_get node_local ''name'' ''Unknown'' = dict_get node_local ''name'' ''Unknown''"
    by simp
  from store_overwrite_and_copy [OF w0 d0 n, where k = "''R1''" and ?r2.0 = "example_record 7"
      and ?r1.0 = "example_record 5"]
  have a: "view (store_record 0 ''R1'' (example_record 7) ?h1) 0 = [''R1'' \<mapsto> example_record 7]"
    by (simp add: v0)
  have v1: "view ?h1 0 = [''R1'' \<mapsto> example_record 5]"
    using view_store_record [OF w0 d0] by (simp add: v0)
  from store_overwrite_and_copy [OF w1 d1 n, where k = "''R1''" and r = "example_record 7"]
  have b: "view (store_record 0 ''R1'' (example_record 7) (snd (get_health_data_ref 0 ?h1)))
        (fst (get_health_data_ref 0 ?h1)) = [''R1'' \<mapsto> example_record 5]"
    by (simp add: v1)
  from a b show ?thesis by simp
qed

end
